theory Spec2Isabelle
  imports Complex_Main "HOL-Library.AList"
begin

section \<open>Values shared by both clients\<close>

text \<open>
  Decoded JSON, as Python's \<open>json\<close> module hands it to the program: \<open>None\<close>, booleans,
  integers, strings, lists and dicts. A dict is an association list read with \<open>map_of\<close>
  and written with \<open>AList.update\<close> (an existing key keeps its place, a new key goes to the
  end, as in a Python dict). Non-integer numbers do not occur in anything modelled here.
\<close>

datatype json =
    JNull
  | JBool bool
  | JInt int
  | JString string
  | JArray "json list"
  | JObject "(string \<times> json) list"

text \<open>
  The exceptions that can leave the modelled code. \<open>RequestException\<close> is raised with a
  message (\<open>core.py\<close> line 55) or wrapping the exception caught on line 53;
  \<open>ResponseError\<close> carries the value found under the key \<open>error\<close>. \<open>KeyError\<close>,
  \<open>TypeError\<close> and \<open>AttributeError\<close> are the interpreter's own; \<open>ValidationError\<close> lists
  the required fields a descriptor was built without; \<open>RuntimeError\<close> is what a closed
  aiohttp session answers; \<open>OtherError\<close> stands for whatever else the HTTP library or the
  JSON decoder raises.
\<close>

datatype exn =
    RequestException string
  | RequestExceptionFrom exn
  | ResponseError json
  | KeyError string
  | TypeError
  | AttributeError
  | ValidationError "string list"
  | RuntimeError string
  | OtherError string

fun is_RequestException :: "exn \<Rightarrow> bool" where
  "is_RequestException (RequestException _) = True"
| "is_RequestException (RequestExceptionFrom _) = True"
| "is_RequestException _ = False"

subsection \<open>Python primitives used by the code\<close>

text \<open>\<open>"%d" % n\<close>: the decimal digits of an integer, with a minus sign when negative.\<close>

definition digit_char :: "nat \<Rightarrow> char" where
  "digit_char d = char_of (48 + d)"

function str_nat :: "nat \<Rightarrow> string" where
  "str_nat n = (if n < 10 then [digit_char n] else str_nat (n div 10) @ [digit_char (n mod 10)])"
  by pat_completeness auto
termination
  by (relation "measure id") auto

declare str_nat.simps [simp del]

definition str_int :: "int \<Rightarrow> string" where
  "str_int i = (if i < 0 then CHR ''-'' # str_nat (nat (- i)) else str_nat (nat i))"

text \<open>\<open>p in s\<close> on two strings: \<open>p\<close> occurs in \<open>s\<close> as a contiguous run.\<close>

fun str_contains :: "string \<Rightarrow> string \<Rightarrow> bool" where
  "str_contains p [] = (p = [])"
| "str_contains p (c # cs) = (take (length p) (c # cs) = p \<or> str_contains p cs)"

text \<open>
  \<open>k in x\<close> for a string \<open>k\<close>: key membership on a dict, element membership on a list,
  substring on a string, \<open>TypeError\<close> on anything else.
\<close>

fun py_in :: "string \<Rightarrow> json \<Rightarrow> exn + bool" where
  "py_in k (JObject kvs) = Inr (map_of kvs k \<noteq> None)"
| "py_in k (JArray xs) = Inr (JString k \<in> set xs)"
| "py_in k (JString s) = Inr (str_contains k s)"
| "py_in k _ = Inl TypeError"

text \<open>\<open>x[k]\<close> for a string \<open>k\<close>: only a dict can be indexed by a string.\<close>

fun py_getitem :: "json \<Rightarrow> string \<Rightarrow> exn + json" where
  "py_getitem (JObject kvs) k = (case map_of kvs k of None \<Rightarrow> Inl (KeyError k) | Some v \<Rightarrow> Inr v)"
| "py_getitem _ k = Inl TypeError"

text \<open>\<open>x.get(k, d)\<close>: only a dict has the method.\<close>

fun py_get :: "json \<Rightarrow> string \<Rightarrow> json \<Rightarrow> exn + json" where
  "py_get (JObject kvs) k d = Inr (case map_of kvs k of None \<Rightarrow> d | Some v \<Rightarrow> v)"
| "py_get _ k d = Inl AttributeError"

section \<open>The blocking client (\<open>cent/core.py\<close>)\<close>

text \<open>
  Names follow the source; a leading underscore is dropped (\<open>_send_one\<close> is \<open>send_one\<close>,
  \<open>_prepare_session\<close> is \<open>prepare_session\<close>, \<open>_create_session\<close> is \<open>create_session\<close>).
  The HTTP library is outside the repository. A request is what reaches it: URL, the
  headers of the session, the JSON body and the timeout in seconds (the blocking client
  passes an integer, the asynchronous session a float, read here as the number it
  stands for). A response is what the code
  reads from it: the status code and what \<open>resp.json()\<close> gives (a decoded value, or the
  exception the decoder raises). The network is a parameter \<open>post\<close> that answers a
  request with a response or raises.
\<close>

record request =
  url :: string
  req_headers :: "(string \<times> string) list"
  req_json :: "(string \<times> json) list"
  req_timeout :: real

record response =
  status_code :: int
  resp_json :: "exn + json"

record http_session =
  headers :: "(string \<times> string) list"
  session_timeout :: "int option"

definition session_post ::
  "(request \<Rightarrow> exn + response) \<Rightarrow> http_session \<Rightarrow> string \<Rightarrow> (string \<times> json) list \<Rightarrow> int
     \<Rightarrow> exn + response" where
  "session_post post s u body t =
     post \<lparr>url = u, req_headers = headers s, req_json = body, req_timeout = real_of_int t\<rparr>"

record client =
  address :: string
  api_key :: string
  timeout :: int
  session :: http_session

definition prepare_session :: "client \<Rightarrow> client" where
  "prepare_session self =
     self\<lparr>session :=
       (session self)\<lparr>headers := AList.update ''Authorization'' (''apikey '' @ api_key self)
                                    (headers (session self)),
                       session_timeout := Some (timeout self)\<rparr>\<rparr>"

text \<open>
  \<open>Client.__init__\<close>: \<open>api_key\<close> defaults to the empty string and \<open>timeout\<close> to 1; an
  argument left out is \<open>None\<close> here. The session is the caller's or a new one of the HTTP
  library, passed in either way.
\<close>

definition Client_init :: "string \<Rightarrow> string option \<Rightarrow> int option \<Rightarrow> http_session \<Rightarrow> client" where
  "Client_init addr key t s =
     prepare_session
       \<lparr>address = addr,
        api_key = (case key of None \<Rightarrow> '''' | Some k \<Rightarrow> k),
        timeout = (case t of None \<Rightarrow> 1 | Some n \<Rightarrow> n),
        session = s\<rparr>"

definition send ::
  "(request \<Rightarrow> exn + response) \<Rightarrow> client \<Rightarrow> string \<Rightarrow> (string \<times> json) list \<Rightarrow> exn + response" where
  "send post self method payload =
     (case session_post post (session self) (address self)
             (AList.update ''method'' (JString method) payload) (timeout self) of
        Inl err \<Rightarrow> if is_RequestException err then Inl (RequestExceptionFrom err) else Inl err
      | Inr resp \<Rightarrow>
          if status_code resp \<noteq> 200
          then Inl (RequestException (''wrong status code: '' @ str_int (status_code resp)))
          else Inr resp)"

definition send_one ::
  "(request \<Rightarrow> exn + response) \<Rightarrow> client \<Rightarrow> string \<Rightarrow> (string \<times> json) list \<Rightarrow> exn + json" where
  "send_one post self method payload =
     (case send post self method payload of
        Inl e \<Rightarrow> Inl e
      | Inr resp \<Rightarrow>
          (case resp_json resp of
             Inl e \<Rightarrow> Inl e
           | Inr body \<Rightarrow>
               (case py_in ''error'' body of
                  Inl e \<Rightarrow> Inl e
                | Inr True \<Rightarrow>
                    (case py_getitem body ''error'' of
                       Inl e \<Rightarrow> Inl e
                     | Inr err \<Rightarrow> Inl (ResponseError err))
                | Inr False \<Rightarrow> py_get body ''result'' (JObject []))))"

text \<open>
  The typed methods. \<open>cent.mixins.ParamsMixin\<close>, which builds each payload, is not among
  the sources: every method takes its payload builder (\<open>get_publish_params\<close>, ...) as its
  first argument. A method that returns \<open>None\<close> returns \<open>()\<close>.
\<close>

definition publish ::
  "(string \<Rightarrow> json \<Rightarrow> bool \<Rightarrow> (string \<times> json) list) \<Rightarrow> (request \<Rightarrow> exn + response) \<Rightarrow> client
     \<Rightarrow> string \<Rightarrow> json \<Rightarrow> bool \<Rightarrow> exn + json" where
  "publish get_publish_params post self channel data skip_history =
     send_one post self ''publish'' (get_publish_params channel data skip_history)"

definition broadcast ::
  "(string list \<Rightarrow> json \<Rightarrow> bool \<Rightarrow> (string \<times> json) list) \<Rightarrow> (request \<Rightarrow> exn + response) \<Rightarrow> client
     \<Rightarrow> string list \<Rightarrow> json \<Rightarrow> bool \<Rightarrow> exn + json" where
  "broadcast get_broadcast_params post self chans data skip_history =
     send_one post self ''broadcast'' (get_broadcast_params chans data skip_history)"

definition subscribe ::
  "(string \<Rightarrow> string \<Rightarrow> string option \<Rightarrow> (string \<times> json) list) \<Rightarrow> (request \<Rightarrow> exn + response)
     \<Rightarrow> client \<Rightarrow> string \<Rightarrow> string \<Rightarrow> string option \<Rightarrow> exn + unit" where
  "subscribe get_subscribe_params post self user channel cl =
     (case send_one post self ''subscribe'' (get_subscribe_params user channel cl) of
        Inl e \<Rightarrow> Inl e
      | Inr _ \<Rightarrow> Inr ())"

definition unsubscribe ::
  "(string \<Rightarrow> string \<Rightarrow> string option \<Rightarrow> (string \<times> json) list) \<Rightarrow> (request \<Rightarrow> exn + response)
     \<Rightarrow> client \<Rightarrow> string \<Rightarrow> string \<Rightarrow> string option \<Rightarrow> exn + unit" where
  "unsubscribe get_unsubscribe_params post self user channel cl =
     (case send_one post self ''unsubscribe'' (get_unsubscribe_params user channel cl) of
        Inl e \<Rightarrow> Inl e
      | Inr _ \<Rightarrow> Inr ())"

definition disconnect ::
  "(string \<Rightarrow> string option \<Rightarrow> (string \<times> json) list) \<Rightarrow> (request \<Rightarrow> exn + response)
     \<Rightarrow> client \<Rightarrow> string \<Rightarrow> string option \<Rightarrow> exn + unit" where
  "disconnect get_disconnect_params post self user cl =
     (case send_one post self ''disconnect'' (get_disconnect_params user cl) of
        Inl e \<Rightarrow> Inl e
      | Inr _ \<Rightarrow> Inr ())"

definition presence ::
  "(string \<Rightarrow> (string \<times> json) list) \<Rightarrow> (request \<Rightarrow> exn + response) \<Rightarrow> client \<Rightarrow> string
     \<Rightarrow> exn + json" where
  "presence get_presence_params post self channel =
     (case send_one post self ''presence'' (get_presence_params channel) of
        Inl e \<Rightarrow> Inl e
      | Inr result \<Rightarrow> py_getitem result ''presence'')"

definition presence_stats ::
  "(string \<Rightarrow> (string \<times> json) list) \<Rightarrow> (request \<Rightarrow> exn + response) \<Rightarrow> client \<Rightarrow> string
     \<Rightarrow> exn + json" where
  "presence_stats get_presence_stats_params post self channel =
     (case send_one post self ''presence_stats'' (get_presence_stats_params channel) of
        Inl e \<Rightarrow> Inl e
      | Inr result \<Rightarrow>
          (case py_getitem result ''num_clients'' of
             Inl e \<Rightarrow> Inl e
           | Inr nc \<Rightarrow>
               (case py_getitem result ''num_users'' of
                  Inl e \<Rightarrow> Inl e
                | Inr nu \<Rightarrow> Inr (JObject [(''num_clients'', nc), (''num_users'', nu)]))))"

definition history ::
  "(string \<Rightarrow> int \<Rightarrow> json option \<Rightarrow> bool \<Rightarrow> (string \<times> json) list) \<Rightarrow> (request \<Rightarrow> exn + response)
     \<Rightarrow> client \<Rightarrow> string \<Rightarrow> int \<Rightarrow> json option \<Rightarrow> bool \<Rightarrow> exn + json" where
  "history get_history_params post self channel limit since reverse =
     (case send_one post self ''history'' (get_history_params channel limit since reverse) of
        Inl e \<Rightarrow> Inl e
      | Inr result \<Rightarrow>
          (case py_get result ''publications'' (JArray []) of
             Inl e \<Rightarrow> Inl e
           | Inr pubs \<Rightarrow>
               (case py_get result ''offset'' (JInt 0) of
                  Inl e \<Rightarrow> Inl e
                | Inr off \<Rightarrow>
                    (case py_get result ''epoch'' (JString []) of
                       Inl e \<Rightarrow> Inl e
                     | Inr ep \<Rightarrow>
                         Inr (JObject [(''publications'', pubs), (''offset'', off),
                                       (''epoch'', ep)])))))"

definition history_remove ::
  "(string \<Rightarrow> (string \<times> json) list) \<Rightarrow> (request \<Rightarrow> exn + response) \<Rightarrow> client \<Rightarrow> string
     \<Rightarrow> exn + unit" where
  "history_remove get_history_remove_params post self channel =
     (case send_one post self ''history_remove'' (get_history_remove_params channel) of
        Inl e \<Rightarrow> Inl e
      | Inr _ \<Rightarrow> Inr ())"

definition channels ::
  "(string \<Rightarrow> (string \<times> json) list) \<Rightarrow> (request \<Rightarrow> exn + response) \<Rightarrow> client \<Rightarrow> string
     \<Rightarrow> exn + json" where
  "channels get_channels_params post self pattern =
     (case send_one post self ''channels'' (get_channels_params pattern) of
        Inl e \<Rightarrow> Inl e
      | Inr result \<Rightarrow> py_getitem result ''channels'')"

definition info ::
  "(string \<times> json) list \<Rightarrow> (request \<Rightarrow> exn + response) \<Rightarrow> client \<Rightarrow> exn + json" where
  "info get_info_params post self = send_one post self ''info'' get_info_params"

section \<open>Method descriptors (\<open>cent/methods\<close>)\<close>

text \<open>
  The base class \<open>CentMethod\<close> is not among the sources. A session reads two things from
  a descriptor: its \<open>__api_method__\<close> and \<open>model_dump(exclude_none=True)\<close>. A descriptor
  is therefore the method name and its declared fields in order, each with the value
  it dumps to, or \<open>None\<close> when the field holds \<open>None\<close>; \<open>model_dump\<close> with
  \<open>exclude_none\<close> drops the latter.
\<close>

record cent_method =
  api_method :: string
  model_fields :: "(string \<times> json option) list"

fun exclude_none :: "(string \<times> json option) list \<Rightarrow> (string \<times> json) list" where
  "exclude_none [] = []"
| "exclude_none ((k, None) # fs) = exclude_none fs"
| "exclude_none ((k, Some v) # fs) = (k, v) # exclude_none fs"

definition model_dump_exclude_none :: "cent_method \<Rightarrow> (string \<times> json) list" where
  "model_dump_exclude_none m = exclude_none (model_fields m)"








text \<open>\<open>ChannelsMethod\<close> (\<open>cent/methods/channels.py\<close>): one optional field.\<close>

record channels_method =
  chs_pattern :: "string option"

definition ChannelsMethod :: "channels_method \<Rightarrow> cent_method" where
  "ChannelsMethod m =
     \<lparr>api_method = ''channels'',
      model_fields = [(''pattern'', map_option JString (chs_pattern m))]\<rparr>"










section \<open>The session-based client (\<open>cent/client/client.py\<close>)\<close>

text \<open>
  \<open>Client\<close> of \<open>cent/client/client.py\<close> holds the base URL, the API key and a session. The
  session classes of the blocking variant (\<open>BaseSyncSession\<close>, \<open>RequestsSession\<close>) are not
  among the sources: the session is the parameter \<open>sess\<close>, called with the client, the
  descriptor and the timeout, as \<open>__call__\<close> does on line 79.
\<close>

record facade =
  fc_base_url :: string
  fc_api_key :: string

definition Client_call ::
  "(facade \<Rightarrow> cent_method \<Rightarrow> int option \<Rightarrow> exn + 'r) \<Rightarrow> facade \<Rightarrow> cent_method \<Rightarrow> int option
     \<Rightarrow> exn + 'r" where
  "Client_call sess self method request_timeout = sess self method request_timeout"



section \<open>The asynchronous session (\<open>cent/client/session\<close>)\<close>

text \<open>\<open>base_async.py\<close> line 10.\<close>

definition DEFAULT_TIMEOUT :: real where
  "DEFAULT_TIMEOUT = 60"

text \<open>
  \<open>aiohttp.ClientSession\<close>, as far as the code uses it: its default headers and whether it
  is closed. The world outside the session object: how many \<open>ClientSession\<close> objects have
  been constructed, and the requests handed to the network, in order.
\<close>

record client_session =
  cs_headers :: "(string \<times> string) list"
  closed :: bool

record world =
  created :: nat
  sent :: "request list"

record aio_response =
  resp_status :: int
  resp_text :: string

text \<open>
  \<open>AiohttpSession\<close>: \<open>_base_url\<close> and \<open>_timeout\<close> are set by the base class \<open>BaseSession\<close>
  (not among the sources), \<open>_session\<close> is \<open>None\<close> after \<open>__init__\<close>.
\<close>

record aiohttp_session =
  aio_base_url :: string
  aio_timeout :: real
  aio_session :: "client_session option"

record async_client =
  ac_api_key :: string

text \<open>
  Modelled from the spec: the result envelope \<open>{result?, error?}\<close>, which \<open>check_response\<close>
  (a method of \<open>BaseSession\<close>, not among the sources) returns; \<open>make_request\<close> reads its
  \<open>result\<close>. \<open>check_response\<close> is a parameter everywhere.
\<close>

record 'r envelope =
  result :: 'r
  error :: "json option"

definition AiohttpSession_init :: "string \<Rightarrow> real \<Rightarrow> aiohttp_session" where
  "AiohttpSession_init b t = \<lparr>aio_base_url = b, aio_timeout = t, aio_session = None\<rparr>"

text \<open>
  \<open>ClientSession(headers=...)\<close> on lines 23-29. \<open>SERVER_SOFTWARE\<close> (of aiohttp) and
  \<open>__version__\<close> (of \<open>cent.__meta__\<close>) are parameters.
\<close>

definition new_ClientSession :: "string \<Rightarrow> string \<Rightarrow> client_session" where
  "new_ClientSession server_software version =
     \<lparr>cs_headers =
        [(''User-Agent'', server_software @ '' pycent/'' @ version),
         (''Content-Type'', ''application/json''),
         (''X-Centrifugo-Error-Mode'', ''transport'')],
      closed = False\<rparr>"

definition create_session ::
  "string \<Rightarrow> string \<Rightarrow> aiohttp_session \<Rightarrow> world \<Rightarrow> client_session \<times> aiohttp_session \<times> world" where
  "create_session server_software version self w =
     (case aio_session self of
        None \<Rightarrow>
          (new_ClientSession server_software version,
           self\<lparr>aio_session := Some (new_ClientSession server_software version)\<rparr>,
           w\<lparr>created := Suc (created w)\<rparr>)
      | Some s \<Rightarrow>
          if closed s
          then (new_ClientSession server_software version,
                self\<lparr>aio_session := Some (new_ClientSession server_software version)\<rparr>,
                w\<lparr>created := Suc (created w)\<rparr>)
          else (s, self, w))"

definition close :: "aiohttp_session \<Rightarrow> aiohttp_session" where
  "close self =
     (case aio_session self of
        None \<Rightarrow> self
      | Some s \<Rightarrow> if \<not> closed s then self\<lparr>aio_session := Some (s\<lparr>closed := True\<rparr>)\<rparr> else self)"

text \<open>
  \<open>session.post\<close> of aiohttp: a closed session refuses with \<open>RuntimeError\<close>; an open one
  sends the request with the session's headers, and the network \<open>net\<close> answers with a
  status and a body, or raises.
\<close>

definition aiohttp_post ::
  "(request \<Rightarrow> exn + aio_response) \<Rightarrow> client_session \<Rightarrow> string \<Rightarrow> (string \<times> json) list \<Rightarrow> real
     \<Rightarrow> world \<Rightarrow> (exn + aio_response) \<times> world" where
  "aiohttp_post net s u body t w =
     (if closed s then (Inl (RuntimeError ''Session is closed''), w)
      else
        (net \<lparr>url = u, req_headers = cs_headers s, req_json = body, req_timeout = t\<rparr>,
         w\<lparr>sent := sent w @ [\<lparr>url = u, req_headers = cs_headers s, req_json = body,
                               req_timeout = t\<rparr>]\<rparr>))"

text \<open>\<open>timeout or self._timeout\<close>: \<open>None\<close> and zero are falsy.\<close>

definition timeout_or :: "real option \<Rightarrow> real \<Rightarrow> real" where
  "timeout_or t d = (case t of None \<Rightarrow> d | Some x \<Rightarrow> if x = 0 then d else x)"

definition make_request ::
  "string \<Rightarrow> string \<Rightarrow> (async_client \<Rightarrow> cent_method \<Rightarrow> int \<Rightarrow> string \<Rightarrow> exn + 'r envelope)
     \<Rightarrow> (request \<Rightarrow> exn + aio_response)
     \<Rightarrow> aiohttp_session \<Rightarrow> async_client \<Rightarrow> cent_method \<Rightarrow> real option \<Rightarrow> world
     \<Rightarrow> (exn + 'r) \<times> aiohttp_session \<times> world" where
  "make_request server_software version check_response net self cl method tmo w =
     (case create_session server_software version self w of
        (s, self1, w1) \<Rightarrow>
          (let s' = s\<lparr>cs_headers := AList.update ''X-API-Key'' (ac_api_key cl) (cs_headers s)\<rparr>;
               self2 = self1\<lparr>aio_session := Some s'\<rparr>;
               json_data = model_dump_exclude_none method;
               u = aio_base_url self2 @ ''/'' @ api_method method
           in case aiohttp_post net s' u json_data (timeout_or tmo (aio_timeout self2)) w1 of
                (Inl e, w2) \<Rightarrow> (Inl e, self2, w2)
              | (Inr resp, w2) \<Rightarrow>
                  (case check_response cl method (resp_status resp) (resp_text resp) of
                     Inl e \<Rightarrow> (Inl e, self2, w2)
                   | Inr response \<Rightarrow> (Inr (result response), self2, w2))))"

text \<open>\<open>BaseAsyncSession.__call__\<close> (\<open>base_async.py\<close> lines 40-46).\<close>

definition AsyncSession_call ::
  "string \<Rightarrow> string \<Rightarrow> (async_client \<Rightarrow> cent_method \<Rightarrow> int \<Rightarrow> string \<Rightarrow> exn + 'r envelope)
     \<Rightarrow> (request \<Rightarrow> exn + aio_response)
     \<Rightarrow> aiohttp_session \<Rightarrow> async_client \<Rightarrow> cent_method \<Rightarrow> real option \<Rightarrow> world
     \<Rightarrow> (exn + 'r) \<times> aiohttp_session \<times> world" where
  "AsyncSession_call server_software version check_response net self cl method tmo w =
     make_request server_software version check_response net self cl method tmo w"

text \<open>
  Two notions used to state properties: the test on line 22 (\<open>self._session is None or
  self._session.closed\<close>), and the \<open>ClientSession\<close> object \<open>_create_session\<close> returns.
\<close>

definition no_open_session :: "aiohttp_session \<Rightarrow> bool" where
  "no_open_session self = (case aio_session self of None \<Rightarrow> True | Some s \<Rightarrow> closed s)"

definition session_used :: "string \<Rightarrow> string \<Rightarrow> aiohttp_session \<Rightarrow> client_session" where
  "session_used sw ver self =
     (case aio_session self of
        None \<Rightarrow> new_ClientSession sw ver
      | Some s \<Rightarrow> if closed s then new_ClientSession sw ver else s)"

section \<open>Example inputs\<close>

abbreviation example_client :: client where
  "example_client \<equiv>
     Client_init ''http://localhost:8000/api'' (Some ''key'') None
       \<lparr>headers = [], session_timeout = None\<rparr>"

abbreviation answers :: "response \<Rightarrow> request \<Rightarrow> exn + response" where
  "answers r \<equiv> (\<lambda>_. Inr r)"

abbreviation example_aio :: aiohttp_session where
  "example_aio \<equiv> AiohttpSession_init ''http://localhost:8000/api'' DEFAULT_TIMEOUT"

abbreviation example_async_client :: async_client where
  "example_async_client \<equiv> \<lparr>ac_api_key = ''key''\<rparr>"

abbreviation empty_world :: world where
  "empty_world \<equiv> \<lparr>created = 0, sent = []\<rparr>"

abbreviation replies :: "aio_response \<Rightarrow> request \<Rightarrow> exn + aio_response" where
  "replies r \<equiv> (\<lambda>_. Inr r)"

abbreviation passes :: "json envelope \<Rightarrow> async_client \<Rightarrow> cent_method \<Rightarrow> int \<Rightarrow> string
    \<Rightarrow> exn + json envelope" where
  "passes e \<equiv> (\<lambda>_ _ _ _. Inr e)"

section \<open>Properties of the blocking client\<close>

lemma send_Inr_iff:
  "send post self method payload = Inr resp \<longleftrightarrow>
   session_post post (session self) (address self)
     (AList.update ''method'' (JString method) payload) (timeout self) = Inr resp
   \<and> status_code resp = 200"
  by (auto simp: send_def split: sum.splits)

lemma send_const:
  assumes "\<And>req. post req = Inr resp" and "status_code resp = 200"
  shows "send post self method payload = Inr resp"
  using assms by (simp add: send_def session_post_def)

lemma send_one_error:
  assumes "send post self method payload = Inr resp"
    and "resp_json resp = Inr (JObject kvs)"
    and "map_of kvs ''error'' = Some err"
  shows "send_one post self method payload = Inl (ResponseError err)"
  using assms by (simp add: send_one_def)

lemma send_one_result:
  assumes "send post self method payload = Inr resp"
    and "resp_json resp = Inr (JObject kvs)"
    and "map_of kvs ''error'' = None"
  shows "send_one post self method payload =
           Inr (case map_of kvs ''result'' of None \<Rightarrow> JObject [] | Some r \<Rightarrow> r)"
  using assms by (simp add: send_one_def)

lemma send_wrong_status:
  assumes "session_post post (session self) (address self)
             (AList.update ''method'' (JString method) payload) (timeout self) = Inr resp"
    and "status_code resp \<noteq> 200"
  shows "send post self method payload =
           Inl (RequestException (''wrong status code: '' @ str_int (status_code resp)))"
  using assms by (simp add: send_def)

lemma send_one_Inl:
  "send post self method payload = Inl e \<Longrightarrow> send_one post self method payload = Inl e"
  by (simp add: send_one_def)

lemma send_one_wrong_status:
  assumes "\<And>req. post req = Inr resp" and "status_code resp \<noteq> 200"
  shows "send_one post self mth pl =
           Inl (RequestException (''wrong status code: '' @ str_int (status_code resp)))"
  using assms by (simp add: send_one_def send_def session_post_def)

lemmas typed_method_defs =
  publish_def broadcast_def subscribe_def unsubscribe_def disconnect_def presence_def
  presence_stats_def history_def history_remove_def channels_def info_def

text \<open>
  Claim C1. When the response that comes back with status 200 decodes to a dict whose
  key \<open>error\<close> holds an error object with code \<open>c\<close> and message \<open>m\<close>, the call raises
  \<open>ResponseError\<close> carrying that very object, and so returns no result: this holds for
  \<open>_send_one\<close>, and for each of the eleven typed methods when the server answers with
  that response.
\<close>

theorem api_error_raised:
  assumes "status_code resp = 200"
    and "resp_json resp = Inr (JObject kvs)"
    and "map_of kvs ''error'' = Some err"
    and "py_getitem err ''code'' = Inr (JInt c)"
    and "py_getitem err ''message'' = Inr (JString m)"
  shows "(send post self meth payload = Inr resp \<longrightarrow>
            send_one post self meth payload = Inl (ResponseError err))
       \<and> ((\<forall>req. post req = Inr resp) \<longrightarrow>
            publish get_publish_params post self channel data skip_history = Inl (ResponseError err)
          \<and> broadcast get_broadcast_params post self chans data skip_history = Inl (ResponseError err)
          \<and> subscribe get_subscribe_params post self user channel cl = Inl (ResponseError err)
          \<and> unsubscribe get_unsubscribe_params post self user channel cl = Inl (ResponseError err)
          \<and> disconnect get_disconnect_params post self user cl = Inl (ResponseError err)
          \<and> presence get_presence_params post self channel = Inl (ResponseError err)
          \<and> presence_stats get_presence_stats_params post self channel = Inl (ResponseError err)
          \<and> history get_history_params post self channel limit since reverse = Inl (ResponseError err)
          \<and> history_remove get_history_remove_params post self channel = Inl (ResponseError err)
          \<and> channels get_channels_params post self pattern = Inl (ResponseError err)
          \<and> info get_info_params post self = Inl (ResponseError err))"
proof -
  have one: "send_one post self mth pl = Inl (ResponseError err)"
    if "\<forall>req. post req = Inr resp" for mth pl
    using that assms(1-3) send_one_error [OF send_const] by blast
  show ?thesis
    using assms(2,3) one by (simp add: send_one_error typed_method_defs)
qed

theorem api_error_raised_witness:
  "send_one
     (answers \<lparr>status_code = 200,
               resp_json = Inr (JObject [(''error'', JObject [(''code'', JInt 1),
                                                              (''message'', JString ''m'')])])\<rparr>)
     example_client ''publish'' [] =
   Inl (ResponseError (JObject [(''code'', JInt 1), (''message'', JString ''m'')]))
 \<and> presence_stats (\<lambda>_. [])
     (answers \<lparr>status_code = 200,
               resp_json = Inr (JObject [(''error'', JObject [(''code'', JInt 1),
                                                              (''message'', JString ''m'')])])\<rparr>)
     example_client ''ch'' =
   Inl (ResponseError (JObject [(''code'', JInt 1), (''message'', JString ''m'')]))"
proof -
  let ?e = "JObject [(''code'', JInt 1), (''message'', JString ''m'')]"
  let ?r = "\<lparr>status_code = 200, resp_json = Inr (JObject [(''error'', ?e)])\<rparr>"
  have s: "send (answers ?r) example_client ''publish'' [] = Inr ?r"
    by (rule send_const) simp_all
  have "status_code ?r = 200" "resp_json ?r = Inr (JObject [(''error'', ?e)])"
    "map_of [(''error'', ?e)] ''error'' = Some ?e"
    "py_getitem ?e ''code'' = Inr (JInt 1)" "py_getitem ?e ''message'' = Inr (JString ''m'')"
    by simp_all
  from api_error_raised [OF this, where post = "answers ?r" and self = example_client
      and meth = "''publish''" and payload = "[]"
      and get_presence_stats_params = "\<lambda>_. []" and channel = "''ch''"] s
  show ?thesis by simp
qed

text \<open>
  The decimal rendering of the status code is injective: the message of the exception
  determines the code.
\<close>

lemma digit_char_inj: "a < 10 \<Longrightarrow> b < 10 \<Longrightarrow> digit_char a = digit_char b \<Longrightarrow> a = b"
  unfolding digit_char_def
  by (simp add: char_of_eq_iff take_bit_nat_eq_self)

lemma digit_char_not_minus: "d < 10 \<Longrightarrow> digit_char d \<noteq> CHR ''-''"
proof
  assume d: "d < 10" and e: "digit_char d = CHR ''-''"
  from d have "of_char (digit_char d) = (48 + d :: nat)"
    by (simp add: digit_char_def)
  moreover have "of_char (CHR ''-'') = (45 :: nat)"
    by simp
  ultimately show False using e by simp
qed

lemma str_nat_last: "last (str_nat n) = digit_char (n mod 10)"
  by (subst str_nat.simps) simp

lemma str_nat_butlast: "butlast (str_nat n) = (if n < 10 then [] else str_nat (n div 10))"
  by (subst str_nat.simps) simp

lemma str_nat_ne: "str_nat n \<noteq> []"
  by (subst str_nat.simps) simp

lemma str_nat_no_minus: "CHR ''-'' \<notin> set (str_nat n)"
proof (induction n rule: str_nat.induct)
  case (1 n)
  show ?case
  proof (cases "n < 10")
    case True
    then show ?thesis
      using digit_char_not_minus [of n] by (subst str_nat.simps) auto
  next
    case False
    moreover have "n mod 10 < 10" by simp
    ultimately show ?thesis
      using 1 digit_char_not_minus [of "n mod 10"] by (subst str_nat.simps) auto
  qed
qed

lemma str_nat_inj: "str_nat a = str_nat b \<Longrightarrow> a = b"
proof (induction a arbitrary: b rule: str_nat.induct)
  case (1 a)
  from 1(2) have "last (str_nat a) = last (str_nat b)" by simp
  then have "digit_char (a mod 10) = digit_char (b mod 10)" by (simp add: str_nat_last)
  then have m: "a mod 10 = b mod 10" by (intro digit_char_inj) simp_all
  from 1(2) have bl: "butlast (str_nat a) = butlast (str_nat b)" by simp
  show ?case
  proof (cases "a < 10")
    case True
    with bl have "b < 10"
      using str_nat_ne [of "b div 10"] by (auto simp: str_nat_butlast split: if_splits)
    with True m show ?thesis by simp
  next
    case False
    with bl have b: "\<not> b < 10"
      using str_nat_ne [of "a div 10"] by (auto simp: str_nat_butlast split: if_splits)
    with False bl have "str_nat (a div 10) = str_nat (b div 10)"
      by (simp add: str_nat_butlast)
    with 1(1) False have "a div 10 = b div 10" by simp
    with m show ?thesis by (metis div_mult_mod_eq)
  qed
qed

lemma str_int_inj: "str_int a = str_int b \<Longrightarrow> a = b"
proof -
  assume e: "str_int a = str_int b"
  have neg: False if "x < 0" "\<not> y < 0" "str_int x = str_int y" for x y
  proof -
    from that have "CHR ''-'' # str_nat (nat (- x)) = str_nat (nat y)"
      by (simp add: str_int_def)
    then have "CHR ''-'' \<in> set (str_nat (nat y))" by (metis list.set_intros(1))
    then show False using str_nat_no_minus by blast
  qed
  show ?thesis
  proof (cases "a < 0"; cases "b < 0")
    assume "a < 0" "b < 0"
    with e have "nat (- a) = nat (- b)" by (auto simp: str_int_def dest: str_nat_inj)
    with \<open>a < 0\<close> \<open>b < 0\<close> show ?thesis by simp
  next
    assume "a < 0" "\<not> b < 0"
    then show ?thesis using neg e by blast
  next
    assume "\<not> a < 0" "b < 0"
    then show ?thesis using neg [of b a] e by simp
  next
    assume "\<not> a < 0" "\<not> b < 0"
    with e have "nat a = nat b" by (auto simp: str_int_def dest: str_nat_inj)
    with \<open>\<not> a < 0\<close> \<open>\<not> b < 0\<close> show ?thesis by simp
  qed
qed

text \<open>
  Claim C3. When the response arrives with a status code other than 200, \<open>send\<close> raises
  \<open>RequestException\<close> with the message \<open>wrong status code: \<close> followed by the code, and
  so do \<open>_send_one\<close> and every typed method. What \<open>resp.json()\<close> would give (\<open>body\<close>,
  possibly a decoding error) is arbitrary and plays no part: the body is never decoded.
  By \<open>str_int_inj\<close> the message tells the status code.
\<close>

theorem non_200_raises:
  assumes "sc \<noteq> 200"
  shows "(session_post post (session self) (address self)
            (AList.update ''method'' (JString meth) payload) (timeout self)
            = Inr \<lparr>status_code = sc, resp_json = body\<rparr> \<longrightarrow>
            send post self meth payload
              = Inl (RequestException (''wrong status code: '' @ str_int sc))
          \<and> send_one post self meth payload
              = Inl (RequestException (''wrong status code: '' @ str_int sc)))
       \<and> ((\<forall>req. post req = Inr \<lparr>status_code = sc, resp_json = body\<rparr>) \<longrightarrow>
            publish get_publish_params post self channel data skip_history
              = Inl (RequestException (''wrong status code: '' @ str_int sc))
          \<and> broadcast get_broadcast_params post self chans data skip_history
              = Inl (RequestException (''wrong status code: '' @ str_int sc))
          \<and> subscribe get_subscribe_params post self user channel cl
              = Inl (RequestException (''wrong status code: '' @ str_int sc))
          \<and> unsubscribe get_unsubscribe_params post self user channel cl
              = Inl (RequestException (''wrong status code: '' @ str_int sc))
          \<and> disconnect get_disconnect_params post self user cl
              = Inl (RequestException (''wrong status code: '' @ str_int sc))
          \<and> presence get_presence_params post self channel
              = Inl (RequestException (''wrong status code: '' @ str_int sc))
          \<and> presence_stats get_presence_stats_params post self channel
              = Inl (RequestException (''wrong status code: '' @ str_int sc))
          \<and> history get_history_params post self channel limit since reverse
              = Inl (RequestException (''wrong status code: '' @ str_int sc))
          \<and> history_remove get_history_remove_params post self channel
              = Inl (RequestException (''wrong status code: '' @ str_int sc))
          \<and> channels get_channels_params post self pattern
              = Inl (RequestException (''wrong status code: '' @ str_int sc))
          \<and> info get_info_params post self
              = Inl (RequestException (''wrong status code: '' @ str_int sc)))"
proof -
  let ?resp = "\<lparr>status_code = sc, resp_json = body\<rparr>"
  have ne: "status_code ?resp \<noteq> 200" using assms by simp
  have one: "send_one post self mth pl
               = Inl (RequestException (''wrong status code: '' @ str_int sc))"
    if "\<forall>req. post req = Inr ?resp" for mth pl
    using send_one_wrong_status [of post ?resp self mth pl] that ne by simp
  have two: "send post self meth payload
               = Inl (RequestException (''wrong status code: '' @ str_int sc))"
    if "session_post post (session self) (address self)
            (AList.update ''method'' (JString meth) payload) (timeout self) = Inr ?resp"
    using send_wrong_status [OF that ne] by simp
  show ?thesis
    using one two by (simp add: send_one_Inl typed_method_defs)
qed

theorem non_200_raises_witness:
  "send (answers \<lparr>status_code = 503, resp_json = Inl (OtherError ''not JSON'')\<rparr>)
     example_client ''info'' [] = Inl (RequestException ''wrong status code: 503'')
 \<and> history (\<lambda>_ _ _ _. [])
     (answers \<lparr>status_code = 503, resp_json = Inl (OtherError ''not JSON'')\<rparr>)
     example_client ''ch'' 0 None False = Inl (RequestException ''wrong status code: 503'')"
proof -
  let ?r = "\<lparr>status_code = 503, resp_json = Inl (OtherError ''not JSON'')\<rparr>"
  have n: "(503::int) \<noteq> 200" by simp
  have s: "str_int 503 = ''503''" by code_simp
  have p: "session_post (answers ?r) (session example_client) (address example_client)
            (AList.update ''method'' (JString ''info'') []) (timeout example_client) = Inr ?r"
    by (simp add: session_post_def)
  from non_200_raises [OF n, where post = "answers ?r" and self = example_client
      and meth = "''info''" and payload = "[]" and body = "Inl (OtherError ''not JSON'')"
      and get_history_params = "\<lambda>_ _ _ _. []" and channel = "''ch''" and limit = 0
      and since = None and reverse = False] p s
  show ?thesis by simp
qed

text \<open>
  Claim C4, as stated, fails for the methods that hand the decoded \<open>result\<close> back as it
  is: \<open>publish\<close> on a result with a key beyond \<open>offset\<close> and \<open>epoch\<close> returns that key too.
\<close>

theorem publish_returns_extra_field:
  "publish (\<lambda>_ _ _. [])
     (answers \<lparr>status_code = 200,
               resp_json = Inr (JObject [(''result'',
                 JObject [(''offset'', JInt 1), (''epoch'', JString ''e''), (''extra'', JInt 7)])])\<rparr>)
     example_client ''ch'' (JObject []) False =
   Inr (JObject [(''offset'', JInt 1), (''epoch'', JString ''e''), (''extra'', JInt 7)])"
  by (simp add: publish_def send_one_def send_def session_post_def)

text \<open>
  Claim C4, amended. In the blocking client, when the server answers with status 200 and
  an envelope without \<open>error\<close> whose \<open>result\<close> is a dict: \<open>presence_stats\<close> returns exactly
  \<open>num_clients\<close> and \<open>num_users\<close> as they are in the result (when both are there);
  \<open>history\<close> returns exactly \<open>publications\<close>, \<open>offset\<close> and \<open>epoch\<close>, each from the result
  or else \<open>[]\<close>, \<open>0\<close> and the empty string; \<open>presence\<close> and \<open>channels\<close> return the value
  under their one key; \<open>publish\<close>, \<open>broadcast\<close> and \<open>info\<close> return the result dict
  unchanged, whatever keys it has; the remaining four methods return \<open>None\<close>.
\<close>

theorem typed_results:
  assumes "\<forall>req. post req = Inr resp"
    and "status_code resp = 200"
    and "resp_json resp = Inr (JObject kvs)"
    and "map_of kvs ''error'' = None"
    and "map_of kvs ''result'' = Some (JObject res)"
  shows "(\<forall>a b. map_of res ''num_clients'' = Some a \<and> map_of res ''num_users'' = Some b \<longrightarrow>
            presence_stats get_presence_stats_params post self channel =
              Inr (JObject [(''num_clients'', a), (''num_users'', b)]))
       \<and> history get_history_params post self channel limit since reverse =
            Inr (JObject
              [(''publications'', case map_of res ''publications'' of None \<Rightarrow> JArray [] | Some v \<Rightarrow> v),
               (''offset'', case map_of res ''offset'' of None \<Rightarrow> JInt 0 | Some v \<Rightarrow> v),
               (''epoch'', case map_of res ''epoch'' of None \<Rightarrow> JString [] | Some v \<Rightarrow> v)])
       \<and> (\<forall>p. map_of res ''presence'' = Some p \<longrightarrow>
            presence get_presence_params post self channel = Inr p)
       \<and> (\<forall>c. map_of res ''channels'' = Some c \<longrightarrow>
            channels get_channels_params post self pattern = Inr c)
       \<and> publish get_publish_params post self channel data skip_history = Inr (JObject res)
       \<and> broadcast get_broadcast_params post self chans data skip_history = Inr (JObject res)
       \<and> info get_info_params post self = Inr (JObject res)
       \<and> subscribe get_subscribe_params post self user channel cl = Inr ()
       \<and> unsubscribe get_unsubscribe_params post self user channel cl = Inr ()
       \<and> disconnect get_disconnect_params post self user cl = Inr ()
       \<and> history_remove get_history_remove_params post self channel = Inr ()"
proof -
  have one: "send_one post self mth pl = Inr (JObject res)" for mth pl
    using send_one_result [OF send_const, of post resp kvs self mth pl] assms by simp
  show ?thesis
    by (simp add: one typed_method_defs)
qed

theorem typed_results_witness:
  "presence_stats (\<lambda>_. [])
     (answers \<lparr>status_code = 200,
               resp_json = Inr (JObject [(''result'',
                 JObject [(''num_clients'', JInt 3), (''num_users'', JInt 2)])])\<rparr>)
     example_client ''ch'' =
   Inr (JObject [(''num_clients'', JInt 3), (''num_users'', JInt 2)])
 \<and> presence (\<lambda>_. [])
     (answers \<lparr>status_code = 200,
               resp_json = Inr (JObject [(''result'',
                 JObject [(''presence'', JObject []), (''channels'', JArray [JString ''ch'']),
                          (''extra'', JInt 7)])])\<rparr>)
     example_client ''ch'' = Inr (JObject [])
 \<and> channels (\<lambda>_. [])
     (answers \<lparr>status_code = 200,
               resp_json = Inr (JObject [(''result'',
                 JObject [(''presence'', JObject []), (''channels'', JArray [JString ''ch'']),
                          (''extra'', JInt 7)])])\<rparr>)
     example_client ''*'' = Inr (JArray [JString ''ch''])
 \<and> history (\<lambda>_ _ _ _. [])
     (answers \<lparr>status_code = 200,
               resp_json = Inr (JObject [(''result'',
                 JObject [(''presence'', JObject []), (''channels'', JArray [JString ''ch'']),
                          (''extra'', JInt 7)])])\<rparr>)
     example_client ''ch'' 0 None False =
   Inr (JObject [(''publications'', JArray []), (''offset'', JInt 0), (''epoch'', JString [])])"
proof -
  let ?res1 = "[(''num_clients'', JInt 3), (''num_users'', JInt 2)]"
  let ?r1 = "\<lparr>status_code = 200, resp_json = Inr (JObject [(''result'', JObject ?res1)])\<rparr>"
  let ?res2 = "[(''presence'', JObject []), (''channels'', JArray [JString ''ch'']),
                (''extra'', JInt 7)]"
  let ?r2 = "\<lparr>status_code = 200, resp_json = Inr (JObject [(''result'', JObject ?res2)])\<rparr>"
  have h1: "\<forall>req. answers ?r1 req = Inr ?r1" "status_code ?r1 = 200"
    "resp_json ?r1 = Inr (JObject [(''result'', JObject ?res1)])"
    "map_of [(''result'', JObject ?res1)] ''error'' = None"
    "map_of [(''result'', JObject ?res1)] ''result'' = Some (JObject ?res1)"
    by simp_all
  have h2: "\<forall>req. answers ?r2 req = Inr ?r2" "status_code ?r2 = 200"
    "resp_json ?r2 = Inr (JObject [(''result'', JObject ?res2)])"
    "map_of [(''result'', JObject ?res2)] ''error'' = None"
    "map_of [(''result'', JObject ?res2)] ''result'' = Some (JObject ?res2)"
    by simp_all
  from typed_results [OF h1, where self = example_client
      and get_presence_stats_params = "\<lambda>_. []" and channel = "''ch''"]
  have a: "presence_stats (\<lambda>_. []) (answers ?r1) example_client ''ch'' =
             Inr (JObject [(''num_clients'', JInt 3), (''num_users'', JInt 2)])"
    by simp
  from typed_results [OF h2, where self = example_client
      and get_presence_params = "\<lambda>_. []" and channel = "''ch''"
      and get_channels_params = "\<lambda>_. []" and pattern = "''*''"
      and get_history_params = "\<lambda>_ _ _ _. []" and limit = 0 and since = None
      and reverse = False]
  have b: "presence (\<lambda>_. []) (answers ?r2) example_client ''ch'' = Inr (JObject [])"
    and c: "channels (\<lambda>_. []) (answers ?r2) example_client ''*'' = Inr (JArray [JString ''ch''])"
    and d: "history (\<lambda>_ _ _ _. []) (answers ?r2) example_client ''ch'' 0 None False =
              Inr (JObject [(''publications'', JArray []), (''offset'', JInt 0),
                            (''epoch'', JString [])])"
    by simp_all
  from a b c d show ?thesis by blast
qed

text \<open>
  Claim C9. In the blocking client, once a 200 response has been decoded to a dict: a key
  \<open>error\<close> wins and its value is raised as a \<open>ResponseError\<close>, also when \<open>result\<close> is there
  too; without it the value under \<open>result\<close> is returned; with neither key the empty dict
  is returned.
\<close>

theorem send_one_error_precedence:
  assumes "send post self method payload = Inr resp"
    and "resp_json resp = Inr (JObject kvs)"
  shows "(\<forall>e. map_of kvs ''error'' = Some e \<longrightarrow>
            send_one post self method payload = Inl (ResponseError e))
       \<and> (\<forall>r. map_of kvs ''error'' = None \<and> map_of kvs ''result'' = Some r \<longrightarrow>
            send_one post self method payload = Inr r)
       \<and> (map_of kvs ''error'' = None \<and> map_of kvs ''result'' = None \<longrightarrow>
            send_one post self method payload = Inr (JObject []))"
  using assms by (simp add: send_one_def)

theorem send_one_error_precedence_witness:
  "send_one
     (answers \<lparr>status_code = 200,
               resp_json = Inr (JObject [(''result'', JInt 1), (''error'', JString ''boom'')])\<rparr>)
     example_client ''info'' [] = Inl (ResponseError (JString ''boom''))
 \<and> send_one
     (answers \<lparr>status_code = 200, resp_json = Inr (JObject [(''result'', JInt 1)])\<rparr>)
     example_client ''info'' [] = Inr (JInt 1)
 \<and> send_one
     (answers \<lparr>status_code = 200, resp_json = Inr (JObject [])\<rparr>)
     example_client ''info'' [] = Inr (JObject [])"
proof -
  let ?r1 = "\<lparr>status_code = 200,
              resp_json = Inr (JObject [(''result'', JInt 1), (''error'', JString ''boom'')])\<rparr>"
  let ?r2 = "\<lparr>status_code = 200, resp_json = Inr (JObject [(''result'', JInt 1)])\<rparr>"
  let ?r3 = "\<lparr>status_code = 200, resp_json = Inr (JObject [])\<rparr>"
  have "send (answers ?r1) example_client ''info'' [] = Inr ?r1"
    by (rule send_const) simp_all
  from send_one_error_precedence
    [OF this, of "[(''result'', JInt 1), (''error'', JString ''boom'')]"]
  have a: "send_one (answers ?r1) example_client ''info'' [] = Inl (ResponseError (JString ''boom''))"
    by simp
  have "send (answers ?r2) example_client ''info'' [] = Inr ?r2"
    by (rule send_const) simp_all
  from send_one_error_precedence [OF this, of "[(''result'', JInt 1)]"]
  have b: "send_one (answers ?r2) example_client ''info'' [] = Inr (JInt 1)"
    by simp
  have "send (answers ?r3) example_client ''info'' [] = Inr ?r3"
    by (rule send_const) simp_all
  from send_one_error_precedence [OF this, of "[]"]
  have c: "send_one (answers ?r3) example_client ''info'' [] = Inr (JObject [])"
    by simp
  from a b c show ?thesis by blast
qed

section \<open>Properties of the descriptors and of the asynchronous session\<close>

lemma create_session_eq:
  "create_session sw ver self w =
     (session_used sw ver self,
      self\<lparr>aio_session := Some (session_used sw ver self)\<rparr>,
      w\<lparr>created := (if no_open_session self then Suc (created w) else created w)\<rparr>)"
  by (cases "aio_session self")
     (simp_all add: create_session_def session_used_def no_open_session_def)

lemma session_used_open: "\<not> closed (session_used sw ver self)"
  by (simp add: session_used_def new_ClientSession_def split: option.splits)

lemma make_request_eq:
  "make_request sw ver chk net self cl m tmo w =
     (let s' = (session_used sw ver self)
                 \<lparr>cs_headers := AList.update ''X-API-Key'' (ac_api_key cl)
                                   (cs_headers (session_used sw ver self))\<rparr>;
          req = \<lparr>url = aio_base_url self @ ''/'' @ api_method m,
                 req_headers = cs_headers s',
                 req_json = model_dump_exclude_none m,
                 req_timeout = timeout_or tmo (aio_timeout self)\<rparr>
      in ((case net req of
             Inl e \<Rightarrow> Inl e
           | Inr resp \<Rightarrow>
               (case chk cl m (resp_status resp) (resp_text resp) of
                  Inl e \<Rightarrow> Inl e
                | Inr response \<Rightarrow> Inr (result response))),
          self\<lparr>aio_session := Some s'\<rparr>,
          w\<lparr>created := (if no_open_session self then Suc (created w) else created w),
            sent := sent w @ [req]\<rparr>))"
  by (simp add: make_request_def create_session_eq aiohttp_post_def session_used_open Let_def
      split: sum.splits)

lemma timeout_or_cases:
  "timeout_or None d = d" "timeout_or (Some 0) d = d" "x \<noteq> 0 \<Longrightarrow> timeout_or (Some x) d = x"
  by (simp_all add: timeout_or_def)

lemma send_agree:
  assumes "\<forall>r. map_of (req_headers r) ''Authorization'' = Some (''apikey '' @ api_key c) \<longrightarrow> post r = post' r"
    and "map_of (headers (session c)) ''Authorization'' = Some (''apikey '' @ api_key c)"
  shows "send post c mth pl = send post' c mth pl"
  using assms by (simp add: send_def session_post_def)

lemma Client_init_header:
  "map_of (headers (session (Client_init addr key t s))) ''Authorization''
     = Some (''apikey '' @ api_key (Client_init addr key t s))"
  by (simp add: Client_init_def prepare_session_def update_conv')

lemma Client_init_api_key:
  "api_key (Client_init addr key t s) = (case key of None \<Rightarrow> [] | Some k \<Rightarrow> k)"
  by (simp add: Client_init_def prepare_session_def)

text \<open>
  Claim C7 at the input where the code departs from it: a caller passes the timeout \<open>0\<close>
  to \<open>make_request\<close> on a session whose default is \<open>DEFAULT_TIMEOUT\<close>. Line 55 computes
  \<open>timeout or self._timeout\<close>, zero is falsy, and the request goes out with the timeout 60
  instead of the one supplied.
\<close>

theorem zero_timeout_replaced_by_default:
  "map req_timeout (sent (snd (snd
     (make_request ''aiohttp'' ''5.0'' (passes \<lparr>result = JNull, error = None\<rparr>)
        (replies \<lparr>resp_status = 200, resp_text = ''{}''\<rparr>)
        example_aio example_async_client (ChannelsMethod \<lparr>chs_pattern = None\<rparr>)
        (Some 0) empty_world)))) = [60]"
  by (simp add: make_request_eq AiohttpSession_init_def timeout_or_def DEFAULT_TIMEOUT_def)

text \<open>
  Claim C8. A blocking client built with an API key has \<open>Authorization: apikey <key>\<close>
  among its session's headers, and every request it issues carries it: two networks
  that answer alike every request with that header cannot be told apart by \<open>send\<close>,
  \<open>_send_one\<close> or any typed method. The asynchronous session sends exactly one request per
  \<open>make_request\<close>, and that request carries \<open>X-API-Key: <key>\<close> with the key of the client
  it was called with. Each implementation uses its one scheme throughout.
\<close>

theorem auth_header_on_every_request:
  fixes c :: client
  assumes "c = Client_init addr key t s"
  shows "api_key c = (case key of None \<Rightarrow> [] | Some k \<Rightarrow> k)
    \<and> map_of (headers (session c)) ''Authorization'' = Some (''apikey '' @ api_key c)
    \<and> ((\<forall>r. map_of (req_headers r) ''Authorization'' = Some (''apikey '' @ api_key c)
            \<longrightarrow> post r = post' r)
        \<longrightarrow> send post c meth payload = send post' c meth payload
          \<and> send_one post c meth payload = send_one post' c meth payload
          \<and> publish get_publish_params post c channel data skip_history
              = publish get_publish_params post' c channel data skip_history
          \<and> broadcast get_broadcast_params post c chans data skip_history
              = broadcast get_broadcast_params post' c chans data skip_history
          \<and> subscribe get_subscribe_params post c user channel cl
              = subscribe get_subscribe_params post' c user channel cl
          \<and> unsubscribe get_unsubscribe_params post c user channel cl
              = unsubscribe get_unsubscribe_params post' c user channel cl
          \<and> disconnect get_disconnect_params post c user cl
              = disconnect get_disconnect_params post' c user cl
          \<and> presence get_presence_params post c channel
              = presence get_presence_params post' c channel
          \<and> presence_stats get_presence_stats_params post c channel
              = presence_stats get_presence_stats_params post' c channel
          \<and> history get_history_params post c channel limit since reverse
              = history get_history_params post' c channel limit since reverse
          \<and> history_remove get_history_remove_params post c channel
              = history_remove get_history_remove_params post' c channel
          \<and> channels get_channels_params post c pattern
              = channels get_channels_params post' c pattern
          \<and> info get_info_params post c = info get_info_params post' c)
    \<and> (\<exists>r. sent (snd (snd (make_request sw ver chk net self acl m tmo w))) = sent w @ [r]
           \<and> map_of (req_headers r) ''X-API-Key'' = Some (ac_api_key acl))"
proof -
  have k: "api_key c = (case key of None \<Rightarrow> [] | Some k \<Rightarrow> k)"
    using assms by (simp add: Client_init_api_key)
  have h: "map_of (headers (session c)) ''Authorization'' = Some (''apikey '' @ api_key c)"
    using Client_init_header [of addr key t s] assms by simp
  have s: "send post c mth pl = send post' c mth pl"
    if "\<forall>r. map_of (req_headers r) ''Authorization'' = Some (''apikey '' @ api_key c)
          \<longrightarrow> post r = post' r"
    for mth pl
    using send_agree [of c post post' mth pl] that h by simp
  have so: "send_one post c mth pl = send_one post' c mth pl"
    if "\<forall>r. map_of (req_headers r) ''Authorization'' = Some (''apikey '' @ api_key c)
          \<longrightarrow> post r = post' r"
    for mth pl
    using s [OF that] by (simp add: send_one_def)
  have a: "\<exists>r. sent (snd (snd (make_request sw ver chk net self acl m tmo w))) = sent w @ [r]
           \<and> map_of (req_headers r) ''X-API-Key'' = Some (ac_api_key acl)"
    by (simp add: make_request_eq Let_def update_conv')
  show ?thesis
    using k h s so a by (simp add: typed_method_defs)
qed

theorem auth_header_on_every_request_witness:
  "send
     (\<lambda>r. if map_of (req_headers r) ''Authorization'' = Some ''apikey key''
          then Inr \<lparr>status_code = 200, resp_json = Inr (JObject [])\<rparr>
          else Inl (OtherError ''unauthorized''))
     example_client ''info'' [] = Inr \<lparr>status_code = 200, resp_json = Inr (JObject [])\<rparr>
 \<and> map (\<lambda>r. map_of (req_headers r) ''X-API-Key'')
      (sent (snd (snd
        (make_request ''aiohttp'' ''5.0'' (passes \<lparr>result = JNull, error = None\<rparr>)
           (replies \<lparr>resp_status = 200, resp_text = ''{}''\<rparr>)
           example_aio example_async_client (ChannelsMethod \<lparr>chs_pattern = None\<rparr>)
           None empty_world)))) = [Some ''key'']"
proof -
  let ?R = "\<lparr>status_code = 200, resp_json = Inr (JObject [])\<rparr>"
  let ?post' = "\<lambda>r. if map_of (req_headers r) ''Authorization'' = Some ''apikey key''
          then Inr ?R else Inl (OtherError ''unauthorized'')"
  let ?mr = "make_request ''aiohttp'' ''5.0'' (passes \<lparr>result = JNull, error = None\<rparr>)
           (replies \<lparr>resp_status = 200, resp_text = ''{}''\<rparr>)
           example_aio example_async_client (ChannelsMethod \<lparr>chs_pattern = None\<rparr>)
           None empty_world"
  note t = auth_header_on_every_request [OF refl, where addr = "''http://localhost:8000/api''"
      and key = "Some ''key''" and t = None and s = "\<lparr>headers = [], session_timeout = None\<rparr>"
      and post = "answers ?R" and post' = ?post' and meth = "''info''" and payload = "[]"
      and sw = "''aiohttp''" and ver = "''5.0''"
      and chk = "passes \<lparr>result = JNull, error = None\<rparr>"
      and net = "replies \<lparr>resp_status = 200, resp_text = ''{}''\<rparr>"
      and self = example_aio and acl = example_async_client
      and m = "ChannelsMethod \<lparr>chs_pattern = None\<rparr>" and tmo = None and w = empty_world]
  have key: "api_key example_client = ''key''"
    using t [THEN conjunct1] by simp
  have agree: "\<forall>r. map_of (req_headers r) ''Authorization'' = Some (''apikey '' @ api_key example_client)
          \<longrightarrow> answers ?R r = ?post' r"
    by (simp add: key)
  have "send (answers ?R) example_client ''info'' [] = send ?post' example_client ''info'' []"
    using t [THEN conjunct2, THEN conjunct2, THEN conjunct1, THEN mp, OF agree, THEN conjunct1] .
  moreover have "send (answers ?R) example_client ''info'' [] = Inr ?R"
    by (rule send_const) simp_all
  ultimately have a: "send ?post' example_client ''info'' [] = Inr ?R"
    by simp
  from t [THEN conjunct2, THEN conjunct2, THEN conjunct2]
  obtain r where r: "sent (snd (snd ?mr)) = sent empty_world @ [r]"
    "map_of (req_headers r) ''X-API-Key'' = Some (ac_api_key example_async_client)"
    by blast
  then have b: "map (\<lambda>r. map_of (req_headers r) ''X-API-Key'') (sent (snd (snd ?mr))) = [Some ''key'']"
    by simp
  from a b show ?thesis by blast
qed




















lemma make_request_outcome:
  assumes "\<forall>req. net req = Inr aresp"
  shows "fst (make_request sw ver chk net self acl m tmo w) =
           (case chk acl m (resp_status aresp) (resp_text aresp) of
              Inl e \<Rightarrow> Inl e
            | Inr env \<Rightarrow> Inr (result env))"
  using assms by (simp add: make_request_eq Let_def)

text \<open>
  Claim C6, as stated, fails for the asynchronous session: what \<open>make_request\<close> hands back
  is the \<open>result\<close> field of the envelope, not the envelope. Two envelopes that differ in
  their \<open>error\<close> field give the caller the same value.
\<close>

theorem make_request_returns_result_only:
  "fst (make_request ''aiohttp'' ''5.0'' (passes \<lparr>result = JInt 1, error = None\<rparr>)
          (replies \<lparr>resp_status = 200, resp_text = ''{}''\<rparr>)
          example_aio example_async_client (ChannelsMethod \<lparr>chs_pattern = None\<rparr>)
          None empty_world) = Inr (JInt 1)
 \<and> fst (make_request ''aiohttp'' ''5.0''
          (passes \<lparr>result = JInt 1,
                   error = Some (JObject [(''code'', JInt 1), (''message'', JString ''m'')])\<rparr>)
          (replies \<lparr>resp_status = 200, resp_text = ''{}''\<rparr>)
          example_aio example_async_client (ChannelsMethod \<lparr>chs_pattern = None\<rparr>)
          None empty_world) = Inr (JInt 1)"
  by (simp add: make_request_outcome)

text \<open>
  Claim C6, amended. In the blocking client \<open>send\<close> returns the response of a status-200
  call as it came, undecoded; decoding and the reading of \<open>error\<close> and \<open>result\<close> are left to
  \<open>_send_one\<close>. In the asynchronous session \<open>make_request\<close> gives status and body to the
  session's own \<open>check_response\<close> and returns the \<open>result\<close> field of the envelope that comes
  back, or the exception \<open>check_response\<close> raises; \<open>__call__\<close> of the session and of the
  client pass on what they get.
\<close>

theorem transport_and_facade_roles:
  "(session_post post (session self) (address self)
        (AList.update ''method'' (JString meth) payload) (timeout self) = Inr resp
      \<and> status_code resp = 200 \<longrightarrow>
      send post self meth payload = Inr resp)
 \<and> ((\<forall>req. net req = Inr aresp) \<longrightarrow>
      fst (make_request sw ver chk net aself acl m tmo w) =
        (case chk acl m (resp_status aresp) (resp_text aresp) of
           Inl e \<Rightarrow> Inl e
         | Inr env \<Rightarrow> Inr (result env)))
 \<and> AsyncSession_call sw ver chk net aself acl m tmo w
      = make_request sw ver chk net aself acl m tmo w
 \<and> Client_call sess fself m request_timeout = sess fself m request_timeout"
  by (simp add: send_Inr_iff make_request_outcome AsyncSession_call_def Client_call_def)

theorem transport_and_facade_roles_witness:
  "send (answers \<lparr>status_code = 200,
                  resp_json = Inr (JObject [(''error'', JObject [(''code'', JInt 1),
                                                                 (''message'', JString ''m'')])])\<rparr>)
     example_client ''info'' []
   = Inr \<lparr>status_code = 200,
          resp_json = Inr (JObject [(''error'', JObject [(''code'', JInt 1),
                                                         (''message'', JString ''m'')])])\<rparr>
 \<and> fst (make_request ''aiohttp'' ''5.0''
          (passes \<lparr>result = JObject [(''channels'', JObject [])], error = None\<rparr>)
          (replies \<lparr>resp_status = 200, resp_text = ''{}''\<rparr>)
          example_aio example_async_client (ChannelsMethod \<lparr>chs_pattern = None\<rparr>)
          None empty_world) = Inr (JObject [(''channels'', JObject [])])"
proof -
  let ?R = "\<lparr>status_code = 200,
             resp_json = Inr (JObject [(''error'', JObject [(''code'', JInt 1),
                                                            (''message'', JString ''m'')])])\<rparr>"
  let ?A = "\<lparr>resp_status = 200, resp_text = ''{}''\<rparr>"
  let ?E = "\<lparr>result = JObject [(''channels'', JObject [])], error = None\<rparr>"
  note t = transport_and_facade_roles [where post = "answers ?R" and self = example_client
      and meth = "''info''" and payload = "[]" and resp = ?R
      and net = "replies ?A" and aresp = ?A and sw = "''aiohttp''" and ver = "''5.0''"
      and chk = "passes ?E" and aself = example_aio and acl = example_async_client
      and m = "ChannelsMethod \<lparr>chs_pattern = None\<rparr>" and tmo = None and w = empty_world]
  have p: "session_post (answers ?R) (session example_client) (address example_client)
        (AList.update ''method'' (JString ''info'') []) (timeout example_client) = Inr ?R
      \<and> status_code ?R = 200"
    by (simp add: session_post_def)
  have a: "send (answers ?R) example_client ''info'' [] = Inr ?R"
    using t [THEN conjunct1, THEN mp, OF p] .
  have n: "\<forall>req. replies ?A req = Inr ?A" by simp
  have b: "fst (make_request ''aiohttp'' ''5.0'' (passes ?E) (replies ?A)
          example_aio example_async_client (ChannelsMethod \<lparr>chs_pattern = None\<rparr>)
          None empty_world) = Inr (JObject [(''channels'', JObject [])])"
    using t [THEN conjunct2, THEN conjunct1, THEN mp, OF n] by simp
  from a b show ?thesis by blast
qed

lemma no_open_session_close: "no_open_session (close self)"
  by (simp add: no_open_session_def close_def split: option.splits)

lemma no_open_session_init: "no_open_session (AiohttpSession_init b t)"
  by (simp add: no_open_session_def AiohttpSession_init_def)

lemma make_request_session:
  "aio_session (fst (snd (make_request sw ver chk net self acl m tmo w))) =
     Some ((session_used sw ver self)
             \<lparr>cs_headers := AList.update ''X-API-Key'' (ac_api_key acl)
                               (cs_headers (session_used sw ver self))\<rparr>)"
  by (simp add: make_request_eq Let_def)

lemma make_request_created:
  "created (snd (snd (make_request sw ver chk net self acl m tmo w))) =
     (if no_open_session self then Suc (created w) else created w)"
  by (simp add: make_request_eq Let_def)

lemma make_request_leaves_open:
  "\<not> no_open_session (fst (snd (make_request sw ver chk net self acl m tmo w)))"
  by (simp add: make_request_session no_open_session_def session_used_open)

lemma make_request_sends:
  "\<exists>r. sent (snd (snd (make_request sw ver chk net self acl m tmo w))) = sent w @ [r]
       \<and> fst (make_request sw ver chk net self acl m tmo w) =
           (case net r of
              Inl e \<Rightarrow> Inl e
            | Inr resp \<Rightarrow>
                (case chk acl m (resp_status resp) (resp_text resp) of
                   Inl e \<Rightarrow> Inl e
                 | Inr env \<Rightarrow> Inr (result env)))"
  by (simp add: make_request_eq Let_def)

lemma session_used_fresh:
  "no_open_session self \<Longrightarrow> session_used sw ver self = new_ClientSession sw ver"
  by (auto simp: no_open_session_def session_used_def split: option.splits)

lemma session_used_reuse:
  "\<not> no_open_session self \<Longrightarrow> aio_session self = Some (session_used sw ver self)"
  by (auto simp: no_open_session_def session_used_def split: option.splits)

text \<open>
  Claim C10. A new \<open>AiohttpSession\<close> holds no \<open>ClientSession\<close>: none is constructed before
  the first request. Whenever the session holds none or a closed one, which is the case
  at the start and after \<open>close\<close>, \<open>make_request\<close> constructs a new \<open>ClientSession\<close> and
  keeps it; whenever it holds an open one, \<open>make_request\<close> constructs nothing and keeps
  using that one. Either way the request is sent on an open session, so the call ends
  with what the network and \<open>check_response\<close> give, never with the refusal of a closed
  session, and it leaves an open session behind.
\<close>

theorem session_created_lazily_and_reused:
  "aio_session (AiohttpSession_init b t) = None
 \<and> no_open_session (AiohttpSession_init b t)
 \<and> no_open_session (close self0)
 \<and> (no_open_session self \<longrightarrow>
      created (snd (snd (make_request sw ver chk net self acl m tmo w))) = Suc (created w)
    \<and> aio_session (fst (snd (make_request sw ver chk net self acl m tmo w))) =
        Some ((new_ClientSession sw ver)
                \<lparr>cs_headers := AList.update ''X-API-Key'' (ac_api_key acl)
                                  (cs_headers (new_ClientSession sw ver))\<rparr>))
 \<and> (\<not> no_open_session self \<longrightarrow>
      created (snd (snd (make_request sw ver chk net self acl m tmo w))) = created w
    \<and> (\<exists>s. aio_session self = Some s \<and> \<not> closed s
          \<and> aio_session (fst (snd (make_request sw ver chk net self acl m tmo w))) =
              Some (s\<lparr>cs_headers := AList.update ''X-API-Key'' (ac_api_key acl) (cs_headers s)\<rparr>)))
 \<and> \<not> no_open_session (fst (snd (make_request sw ver chk net self acl m tmo w)))
 \<and> (\<exists>r. sent (snd (snd (make_request sw ver chk net self acl m tmo w))) = sent w @ [r]
       \<and> fst (make_request sw ver chk net self acl m tmo w) =
           (case net r of
              Inl e \<Rightarrow> Inl e
            | Inr resp \<Rightarrow>
                (case chk acl m (resp_status resp) (resp_text resp) of
                   Inl e \<Rightarrow> Inl e
                 | Inr env \<Rightarrow> Inr (result env))))"
proof -
  have fresh: "aio_session (fst (snd (make_request sw ver chk net self acl m tmo w))) =
        Some ((new_ClientSession sw ver)
                \<lparr>cs_headers := AList.update ''X-API-Key'' (ac_api_key acl)
                                  (cs_headers (new_ClientSession sw ver))\<rparr>)"
    if "no_open_session self"
    using that by (simp add: make_request_session session_used_fresh)
  have reuse: "\<exists>s. aio_session self = Some s \<and> \<not> closed s
          \<and> aio_session (fst (snd (make_request sw ver chk net self acl m tmo w))) =
              Some (s\<lparr>cs_headers := AList.update ''X-API-Key'' (ac_api_key acl) (cs_headers s)\<rparr>)"
    if "\<not> no_open_session self"
    using session_used_reuse [OF that, of sw ver] session_used_open [of sw ver self]
    by (simp add: make_request_session)
  have i: "aio_session (AiohttpSession_init b t) = None"
    by (simp add: AiohttpSession_init_def)
  show ?thesis
    using i fresh reuse make_request_sends [of sw ver chk net self acl m tmo w]
    by (simp add: make_request_created make_request_leaves_open no_open_session_close
        no_open_session_init)
qed

theorem session_created_lazily_and_reused_witness:
  "created (snd (snd
     (make_request ''aiohttp'' ''5.0'' (passes \<lparr>result = JNull, error = None\<rparr>)
        (replies \<lparr>resp_status = 200, resp_text = ''{}''\<rparr>)
        example_aio example_async_client (ChannelsMethod \<lparr>chs_pattern = None\<rparr>)
        None empty_world))) = 1
 \<and> created (snd (snd
     (make_request ''aiohttp'' ''5.0'' (passes \<lparr>result = JNull, error = None\<rparr>)
        (replies \<lparr>resp_status = 200, resp_text = ''{}''\<rparr>)
        (fst (snd
          (make_request ''aiohttp'' ''5.0'' (passes \<lparr>result = JNull, error = None\<rparr>)
             (replies \<lparr>resp_status = 200, resp_text = ''{}''\<rparr>)
             example_aio example_async_client (ChannelsMethod \<lparr>chs_pattern = None\<rparr>)
             None empty_world)))
        example_async_client (ChannelsMethod \<lparr>chs_pattern = None\<rparr>)
        None \<lparr>created = 1, sent = []\<rparr>))) = 1
 \<and> created (snd (snd
     (make_request ''aiohttp'' ''5.0'' (passes \<lparr>result = JNull, error = None\<rparr>)
        (replies \<lparr>resp_status = 200, resp_text = ''{}''\<rparr>)
        (close (fst (snd
          (make_request ''aiohttp'' ''5.0'' (passes \<lparr>result = JNull, error = None\<rparr>)
             (replies \<lparr>resp_status = 200, resp_text = ''{}''\<rparr>)
             example_aio example_async_client (ChannelsMethod \<lparr>chs_pattern = None\<rparr>)
             None empty_world))))
        example_async_client (ChannelsMethod \<lparr>chs_pattern = None\<rparr>)
        None \<lparr>created = 1, sent = []\<rparr>))) = 2"
proof -
  let ?chk = "passes \<lparr>result = JNull, error = None\<rparr>"
  let ?net = "replies \<lparr>resp_status = 200, resp_text = ''{}''\<rparr>"
  let ?m = "ChannelsMethod \<lparr>chs_pattern = None\<rparr>"
  let ?w1 = "\<lparr>created = 1, sent = []\<rparr>"
  let ?first = "make_request ''aiohttp'' ''5.0'' ?chk ?net example_aio example_async_client ?m
                  None empty_world"
  let ?s1 = "fst (snd ?first)"
  note t = session_created_lazily_and_reused [where sw = "''aiohttp''" and ver = "''5.0''"
      and chk = ?chk and net = ?net and acl = example_async_client and m = ?m and tmo = None]
  have n0: "no_open_session example_aio"
    using t [THEN conjunct2, THEN conjunct1] .
  have a: "created (snd (snd ?first)) = 1"
    using t [where self = example_aio and w = empty_world, THEN conjunct2, THEN conjunct2,
        THEN conjunct2, THEN conjunct1, THEN mp, OF n0, THEN conjunct1]
    by simp
  have n1: "\<not> no_open_session ?s1"
    using t [where self = example_aio, THEN conjunct2, THEN conjunct2, THEN conjunct2,
        THEN conjunct2, THEN conjunct2, THEN conjunct1] .
  have b: "created (snd (snd
      (make_request ''aiohttp'' ''5.0'' ?chk ?net ?s1 example_async_client ?m None ?w1))) = 1"
    using t [where self = ?s1 and w = ?w1, THEN conjunct2, THEN conjunct2, THEN conjunct2,
        THEN conjunct2, THEN conjunct1, THEN mp, OF n1, THEN conjunct1]
    by simp
  have n2: "no_open_session (close ?s1)"
    using t [THEN conjunct2, THEN conjunct2, THEN conjunct1] .
  have c: "created (snd (snd
      (make_request ''aiohttp'' ''5.0'' ?chk ?net (close ?s1) example_async_client ?m None ?w1)))
        = 2"
    using t [where self = "close ?s1" and w = ?w1, THEN conjunct2, THEN conjunct2,
        THEN conjunct2, THEN conjunct1, THEN mp, OF n2, THEN conjunct1]
    by simp
  from a b c show ?thesis by blast
qed


end
